theory Spec2Isabelle
  imports Main
begin

section \<open>Errors and matrices\<close>

text \<open>
  The exceptions that \<^verbatim>\<open>vec4ir/base.py\<close> and the library calls it makes can raise.
  A \<^verbatim>\<open>ValueError\<close> carries its message, so that the shape check of \<^verbatim>\<open>_checkXy\<close>
  can be told apart from the other value errors; an \<^verbatim>\<open>AttributeError\<close> carries the name
  of the attribute that was read before it was ever assigned.
\<close>

datatype error =
    ValueError string
  | AttributeError string
  | IndexError
  | KeyError
  | NotFittedError

text \<open>
  A two-dimensional array (numpy \<^verbatim>\<open>ndarray\<close> or scipy sparse matrix): its rows, and the
  number of columns of its shape, which a matrix without rows still has. The number of
  rows is the length of \<open>rows\<close>.
\<close>

record 'a matrix =
  rows :: "'a list list"
  n_cols :: nat

definition n_rows :: "'a matrix \<Rightarrow> nat" where
  "n_rows M = length (rows M)"

text \<open>Every row of the matrix has as many entries as the shape says.\<close>

definition rectangular :: "'a matrix \<Rightarrow> bool" where
  "rectangular M = list_all (\<lambda>r. length r = n_cols M) (rows M)"

text \<open>\<^verbatim>\<open>X.transpose()\<close>: row \<open>j\<close> of the result is column \<open>j\<close> of \<open>X\<close>.\<close>

definition mtranspose :: "'a matrix \<Rightarrow> 'a matrix" where
  "mtranspose M =
     \<lparr>rows = map (\<lambda>j. map (\<lambda>r. r ! j) (rows M)) [0..<n_cols M],
      n_cols = length (rows M)\<rparr>"

text \<open>
  \<^verbatim>\<open>M.nonzero()[1]\<close>: the column index of every nonzero entry, in row-major order
  (row by row, columns ascending inside a row).
\<close>

definition nonzero_in_row :: "bool list \<Rightarrow> nat list" where
  "nonzero_in_row r = map fst (filter snd (enumerate 0 r))"

definition nonzero_cols :: "bool matrix \<Rightarrow> nat list" where
  "nonzero_cols M = concat (map nonzero_in_row (rows M))"

text \<open>
  \<^verbatim>\<open>M[idx, :]\<close> and \<^verbatim>\<open>M[idx]\<close> with an index array: the selected rows in the order of the
  indices; an index beyond the last row raises \<^verbatim>\<open>IndexError\<close>.
\<close>

definition take_rows :: "'a matrix \<Rightarrow> nat list \<Rightarrow> error + 'a matrix" where
  "take_rows M idx =
     (if list_all (\<lambda>i. i < length (rows M)) idx
      then Inr \<lparr>rows = map (\<lambda>i. rows M ! i) idx, n_cols = n_cols M\<rparr>
      else Inl IndexError)"

text \<open>\<^verbatim>\<open>np.unique\<close>: sort, then drop the repeated neighbours.\<close>

definition np_unique :: "nat list \<Rightarrow> nat list" where
  "np_unique xs = remdups_adj (sort xs)"

section \<open>Boolean matching\<close>

text \<open>
  \<^verbatim>\<open>TermMatch(X, q)\<close>, lines 53 to 61 of \<^verbatim>\<open>base.py\<close>:
  \<^verbatim>\<open>
    inverted_index = X.transpose()
    query_terms = q.nonzero()[1]
    matching_terms = inverted_index[query_terms, :]
    matching_doc_indices = np.unique(matching_terms.nonzero()[1])
    return matching_doc_indices
  \<close>
\<close>

definition TermMatch :: "bool matrix \<Rightarrow> bool matrix \<Rightarrow> error + nat list" where
  "TermMatch X q =
     (let inverted_index = mtranspose X;
          query_terms = nonzero_cols q
      in case take_rows inverted_index query_terms of
           Inl e \<Rightarrow> Inl e
         | Inr matching_terms \<Rightarrow> Inr (np_unique (nonzero_cols matching_terms)))"

text \<open>The fixture of the docstring of \<^verbatim>\<open>TermMatch\<close>, with 0 and 1 read as booleans.\<close>

definition fixture_X :: "bool matrix" where
  "fixture_X =
     \<lparr>rows = [[False, False, True], [False, True, False], [False, True, True],
              [True, False, False], [True, False, True], [True, True, False]],
      n_cols = 3\<rparr>"

definition query_row :: "bool list \<Rightarrow> bool matrix" where
  "query_row r = \<lparr>rows = [r], n_cols = length r\<rparr>"

section \<open>The external capabilities\<close>

text \<open>
  The vectorizers and the nearest-neighbour search belong to scikit-learn, not to this
  repository, so they are parameters of the model. A vectorizer is fitted on a batch
  (\<open>None\<close>: it raises \<^verbatim>\<open>ValueError\<close>, as scikit-learn does for an empty vocabulary); a
  fitted vectorizer fixes the number of features and gives, for a document and a feature
  index, the entry of the document's row. \<open>kneighbors\<close> stands for
  \<^verbatim>\<open>NearestNeighbors(metric='cosine', algorithm='brute').fit(Xm).kneighbors(q, n_neighbors=n,
  return_distance=False)[0]\<close>; it may raise.
\<close>

record ('d, 'cv, 'tv, 'w) sklearn =
  cv_fit :: "'d list \<Rightarrow> 'cv option"
  cv_n_features :: "'cv \<Rightarrow> nat"
  cv_present :: "'cv \<Rightarrow> 'd \<Rightarrow> nat \<Rightarrow> bool"
  tfidf_fit :: "'d list \<Rightarrow> 'tv option"
  tfidf_n_features :: "'tv \<Rightarrow> nat"
  tfidf_weight :: "'tv \<Rightarrow> 'd \<Rightarrow> nat \<Rightarrow> 'w"
  kneighbors :: "'w matrix \<Rightarrow> 'w matrix \<Rightarrow> int \<Rightarrow> error + nat list"

text \<open>
  The matrix of a batch: one row per document, one column per feature of the fitted
  vocabulary.
\<close>

definition cv_transform ::
  "('d, 'cv, 'tv, 'w) sklearn \<Rightarrow> 'cv \<Rightarrow> 'd list \<Rightarrow> bool matrix" where
  "cv_transform env cv docs =
     \<lparr>rows = map (\<lambda>d. map (cv_present env cv d) [0..<cv_n_features env cv]) docs,
      n_cols = cv_n_features env cv\<rparr>"

definition tfidf_rows ::
  "('d, 'cv, 'tv, 'w) sklearn \<Rightarrow> 'tv \<Rightarrow> 'd list \<Rightarrow> 'w matrix" where
  "tfidf_rows env tv docs =
     \<lparr>rows = map (\<lambda>d. map (tfidf_weight env tv d) [0..<tfidf_n_features env tv]) docs,
      n_cols = tfidf_n_features env tv\<rparr>"

text \<open>
  \<^verbatim>\<open>self.vectorizer.transform(docs)\<close>: the tf-idf step checks its input and raises
  \<^verbatim>\<open>ValueError\<close> on a batch without documents; the count vectorizer has no such check.
\<close>

definition tfidf_transform ::
  "('d, 'cv, 'tv, 'w) sklearn \<Rightarrow> 'tv \<Rightarrow> 'd list \<Rightarrow> error + 'w matrix" where
  "tfidf_transform env tv docs =
     (if docs = [] then Inl (ValueError ''Found array with 0 sample(s)'')
      else Inr (tfidf_rows env tv docs))"

section \<open>Array helpers\<close>

text \<open>\<^verbatim>\<open>sp.vstack([A, B])\<close>: the rows of \<open>A\<close>, then those of \<open>B\<close>; the column counts must agree.\<close>

definition vstack :: "'a matrix \<Rightarrow> 'a matrix \<Rightarrow> error + 'a matrix" where
  "vstack A B =
     (if n_cols A = n_cols B
      then Inr \<lparr>rows = rows A @ rows B, n_cols = n_cols A\<rparr>
      else Inl (ValueError ''incompatible dimensions''))"

text \<open>\<^verbatim>\<open>a[idx]\<close> on a one-dimensional array with an array of indices.\<close>

definition take_items :: "'a list \<Rightarrow> nat list \<Rightarrow> error + 'a list" where
  "take_items xs idx =
     (if list_all (\<lambda>i. i < length xs) idx
      then Inr (map (\<lambda>i. xs ! i) idx)
      else Inl IndexError)"

text \<open>\<^verbatim>\<open>np.amax\<close>: the maximum; an empty array has none.\<close>

fun amax :: "int list \<Rightarrow> error + int" where
  "amax [] = Inl (ValueError ''zero-size array to reduction operation maximum which has no identity'')"
| "amax (x # xs) = Inr (fold max xs x)"

text \<open>
  \<^verbatim>\<open>np.arange(start, stop)\<close> on Python integers: \<open>start, start + 1, ..., stop - 1\<close>.
\<close>

definition arange :: "int \<Rightarrow> int \<Rightarrow> int list" where
  "arange start stop = [start..stop - 1]"

text \<open>
  The identifier array is an array of 64-bit signed integers, and \<^verbatim>\<open>np.amax\<close> gives a
  scalar of that type. Arithmetic on such scalars wraps around: \<open>int64\<close> takes the exact
  result back into the range from \<open>- 2 ^ 63\<close> to \<open>2 ^ 63 - 1\<close>.
\<close>

definition int64 :: "int \<Rightarrow> int" where
  "int64 x = (x + 2 ^ 63) mod 2 ^ 64 - 2 ^ 63"

text \<open>
  \<^verbatim>\<open>np.arange(start, start + n)\<close> where \<open>start\<close> is a 64-bit scalar and \<open>n\<close> the length of
  a list. The stop \<open>start + n\<close>, the number of elements \<open>stop - start\<close> and the elements
  \<open>start + i\<close> are all computed in 64 bits; the number of elements comes back as \<open>n\<close>,
  and each element is wrapped.
\<close>

definition arange_int64 :: "int \<Rightarrow> nat \<Rightarrow> int list" where
  "arange_int64 start n = map (\<lambda>i. int64 (start + int i)) [0..<n]"

section \<open>The index store\<close>

text \<open>
  The attributes of a \<^verbatim>\<open>TfidfRetrieval\<close> object. \<open>None\<close> in \<open>self_inv_X\<close>, \<open>self_fit_X\<close>,
  \<open>self_y\<close>, \<open>self_n_docs\<close> and \<open>self_X\<close> means the attribute has not been assigned, so
  reading it raises \<^verbatim>\<open>AttributeError\<close>; \<open>None\<close> in \<open>self_cv\<close> and \<open>self_vectorizer\<close>
  means the vectorizer object is not fitted, so \<^verbatim>\<open>transform\<close> raises; \<open>None\<close> in
  \<open>self_match_fn\<close> is Python's \<^verbatim>\<open>None\<close>. Identifiers are integers, held in an array of
  64-bit signed integers.
\<close>

record ('d, 'cv, 'tv, 'w) retrieval =
  self_match_fn :: "(bool matrix \<Rightarrow> bool matrix \<Rightarrow> error + nat list) option"
  self_cv :: "'cv option"
  self_inv_X :: "bool matrix option"
  self_fit_X :: "'d list option"
  self_y :: "int list option"
  self_n_docs :: "nat option"
  self_vectorizer :: "'tv option"
  self_X :: "'w matrix option"

text \<open>
  \<^verbatim>\<open>TfidfRetrieval.__init__\<close> with \<^verbatim>\<open>_init_params(name="TFIDF")\<close>: the matching function is
  \<^verbatim>\<open>TermMatch\<close>, both vectorizers are created unfitted, nothing else is assigned.
\<close>

definition TfidfRetrieval_init :: "('d, 'cv, 'tv, 'w) retrieval" where
  "TfidfRetrieval_init =
     \<lparr>self_match_fn = Some TermMatch, self_cv = None, self_inv_X = None, self_fit_X = None,
      self_y = None, self_n_docs = None, self_vectorizer = None, self_X = None\<rparr>"

text \<open>\<^verbatim>\<open>_checkXy(X, y)\<close>, lines 83 to 87; the result is the exception raised, if any.\<close>

definition checkXy :: "'a list \<Rightarrow> 'b list option \<Rightarrow> error option" where
  "checkXy X y =
     (case y of
        None \<Rightarrow> None
      | Some ys \<Rightarrow>
          if length X \<noteq> length ys then Some (ValueError ''Shapes of X and y do not match.'')
          else None)"

text \<open>
  \<^verbatim>\<open>RetrievalBase._fit\<close>, lines 140 to 151. The methods that assign attributes return the
  exception raised, if any, with the object as the call leaves it.
\<close>

definition RetrievalBase_fit ::
  "('d, 'cv, 'tv, 'w) sklearn \<Rightarrow> ('d, 'cv, 'tv, 'w) retrieval \<Rightarrow> 'd list \<Rightarrow> int list option
     \<Rightarrow> error option \<times> ('d, 'cv, 'tv, 'w) retrieval" where
  "RetrievalBase_fit env self X y =
     (case checkXy X y of
        Some e \<Rightarrow> (Some e, self)
      | None \<Rightarrow>
          (case cv_fit env X of
             None \<Rightarrow> (Some (ValueError ''empty vocabulary''), self)
           | Some cv \<Rightarrow>
               let n_docs = length X
               in (None,
                   self\<lparr>self_cv := Some cv,
                        self_inv_X := Some (cv_transform env cv X),
                        self_y := Some (case y of None \<Rightarrow> arange 0 (int n_docs) | Some ys \<Rightarrow> ys),
                        self_n_docs := Some n_docs\<rparr>)))"

text \<open>\<^verbatim>\<open>RetrievalBase._partial_fit\<close>, lines 153 to 168, statement by statement.\<close>

definition RetrievalBase_partial_fit ::
  "('d, 'cv, 'tv, 'w) sklearn \<Rightarrow> ('d, 'cv, 'tv, 'w) retrieval \<Rightarrow> 'd list \<Rightarrow> int list option
     \<Rightarrow> error option \<times> ('d, 'cv, 'tv, 'w) retrieval" where
  "RetrievalBase_partial_fit env self X y =
     (case checkXy X y of
        Some e \<Rightarrow> (Some e, self)
      | None \<Rightarrow>
     (case self_inv_X self of
        None \<Rightarrow> (Some (AttributeError ''_inv_X''), self)
      | Some old_index \<Rightarrow>
     (case self_cv self of
        None \<Rightarrow> (Some NotFittedError, self)
      | Some cv \<Rightarrow>
     (case vstack old_index (cv_transform env cv X) of
        Inl e \<Rightarrow> (Some e, self)
      | Inr new_index \<Rightarrow>
     (let self1 = self\<lparr>self_inv_X := Some new_index\<rparr>
      in case self_y self1 of
        None \<Rightarrow> (Some (AttributeError ''_y''), self1)
      | Some ids \<Rightarrow>
     (case amax ids of
        Inl e \<Rightarrow> (Some e, self1)
      | Inr m \<Rightarrow>
     (let next_id = int64 (m + 1);
          y' = (case y of None \<Rightarrow> arange_int64 next_id (length X) | Some ys \<Rightarrow> ys);
          self2 = self1\<lparr>self_y := Some (ids @ y')\<rparr>
      in case self_n_docs self2 of
        None \<Rightarrow> (Some (AttributeError ''n_docs''), self2)
      | Some n \<Rightarrow> (None, self2\<lparr>self_n_docs := Some (n + length X)\<rparr>))))))))"

text \<open>
  \<^verbatim>\<open>RetrievalBase._matching\<close>, lines 170 to 182. It returns the indices, or the pair of the
  matching source documents and their identifiers.
\<close>

datatype 'd matched = Indices "nat list" | Matched "'d list" "int list"

definition RetrievalBase_matching ::
  "('d, 'cv, 'tv, 'w) sklearn \<Rightarrow> ('d, 'cv, 'tv, 'w) retrieval \<Rightarrow> 'd \<Rightarrow> bool
     \<Rightarrow> error + 'd matched" where
  "RetrievalBase_matching env self query return_indices =
     (case self_inv_X self of
        None \<Rightarrow> Inl (AttributeError ''_inv_X'')
      | Some X \<Rightarrow>
     (case self_cv self of
        None \<Rightarrow> Inl NotFittedError
      | Some cv \<Rightarrow>
     (let q = cv_transform env cv [query]
      in case self_match_fn self of
        Some match_fn \<Rightarrow>
          (case match_fn X q of
             Inl e \<Rightarrow> Inl e
           | Inr ind \<Rightarrow>
               if return_indices then Inr (Indices ind)
               else (case self_fit_X self of
                       None \<Rightarrow> Inl (AttributeError ''_fit_X'')
                     | Some fit_X \<Rightarrow>
                    (case take_items fit_X ind of
                       Inl e \<Rightarrow> Inl e
                     | Inr docs \<Rightarrow>
                    (case self_y self of
                       None \<Rightarrow> Inl (AttributeError ''_y'')
                     | Some ids \<Rightarrow>
                    (case take_items ids ind of
                       Inl e \<Rightarrow> Inl e
                     | Inr matched_ids \<Rightarrow> Inr (Matched docs matched_ids))))))
      | None \<Rightarrow>
          (case self_fit_X self of
             None \<Rightarrow> Inl (AttributeError ''_fit_X'')
           | Some fit_X \<Rightarrow>
               (case self_y self of
                  None \<Rightarrow> Inl (AttributeError ''_y'')
                | Some ids \<Rightarrow> Inr (Matched fit_X ids))))))"

section \<open>Tf-idf retrieval\<close>

text \<open>\<^verbatim>\<open>TfidfRetrieval.fit\<close>, lines 283 to 287.\<close>

definition TfidfRetrieval_fit ::
  "('d, 'cv, 'tv, 'w) sklearn \<Rightarrow> ('d, 'cv, 'tv, 'w) retrieval \<Rightarrow> 'd list \<Rightarrow> int list option
     \<Rightarrow> error option \<times> ('d, 'cv, 'tv, 'w) retrieval" where
  "TfidfRetrieval_fit env self X y =
     (case RetrievalBase_fit env self X y of
        (Some e, self1) \<Rightarrow> (Some e, self1)
      | (None, self1) \<Rightarrow>
          (case tfidf_fit env X of
             None \<Rightarrow> (Some (ValueError ''empty vocabulary''), self1)
           | Some tv \<Rightarrow>
               (let self2 = self1\<lparr>self_vectorizer := Some tv\<rparr>
                in case tfidf_transform env tv X of
                     Inl e \<Rightarrow> (Some e, self2)
                   | Inr W \<Rightarrow> (None, self2\<lparr>self_X := Some W\<rparr>))))"

text \<open>\<^verbatim>\<open>TfidfRetrieval.partial_fit\<close>, lines 289 to 293.\<close>

definition TfidfRetrieval_partial_fit ::
  "('d, 'cv, 'tv, 'w) sklearn \<Rightarrow> ('d, 'cv, 'tv, 'w) retrieval \<Rightarrow> 'd list \<Rightarrow> int list option
     \<Rightarrow> error option \<times> ('d, 'cv, 'tv, 'w) retrieval" where
  "TfidfRetrieval_partial_fit env self X y =
     (case RetrievalBase_partial_fit env self X y of
        (Some e, self1) \<Rightarrow> (Some e, self1)
      | (None, self1) \<Rightarrow>
     (case self_vectorizer self1 of
        None \<Rightarrow> (Some NotFittedError, self1)
      | Some tv \<Rightarrow>
     (case tfidf_transform env tv X of
        Inl e \<Rightarrow> (Some e, self1)
      | Inr Xt \<Rightarrow>
     (case self_X self1 of
        None \<Rightarrow> (Some (AttributeError ''_X''), self1)
      | Some W \<Rightarrow>
     (case vstack W Xt of
        Inl e \<Rightarrow> (Some e, self1)
      | Inr W' \<Rightarrow> (None, self1\<lparr>self_X := Some W'\<rparr>))))))"

text \<open>
  \<^verbatim>\<open>TfidfRetrieval.query\<close>, lines 295 to 320. \<^verbatim>\<open>_matching\<close> is called with
  \<^verbatim>\<open>return_indices=True\<close>; were it to hand back the pair of arrays instead, indexing
  \<^verbatim>\<open>self._X\<close> with it would fail.
\<close>

definition TfidfRetrieval_query ::
  "('d, 'cv, 'tv, 'w) sklearn \<Rightarrow> ('d, 'cv, 'tv, 'w) retrieval \<Rightarrow> 'd \<Rightarrow> int
     \<Rightarrow> error + int list" where
  "TfidfRetrieval_query env self query k =
     (case RetrievalBase_matching env self query True of
        Inl e \<Rightarrow> Inl e
      | Inr (Matched docs ids) \<Rightarrow> Inl IndexError
      | Inr (Indices matching_ind) \<Rightarrow>
     (case self_X self of
        None \<Rightarrow> Inl (AttributeError ''_X'')
      | Some W \<Rightarrow>
     (case take_rows W matching_ind of
        Inl e \<Rightarrow> Inl e
      | Inr Xm \<Rightarrow>
     (case self_y self of
        None \<Rightarrow> Inl (AttributeError ''_y'')
      | Some ids \<Rightarrow>
     (case take_items ids matching_ind of
        Inl e \<Rightarrow> Inl e
      | Inr matched_doc_ids \<Rightarrow>
     (let n_match = length matching_ind;
          n_ret = min (int n_match) k
      in if n_ret = 0 then Inr []
         else (case self_vectorizer self of
                 None \<Rightarrow> Inl NotFittedError
               | Some tv \<Rightarrow>
                   (case tfidf_transform env tv [query] of
                      Inl e \<Rightarrow> Inl e
                    | Inr q \<Rightarrow>
                        (case kneighbors env Xm q n_ret of
                           Inl e \<Rightarrow> Inl e
                         | Inr ind \<Rightarrow> take_items matched_doc_ids ind)))))))))"

section \<open>Evaluation\<close>

text \<open>
  The shapes of relevance judgments that \<^verbatim>\<open>evaluate\<close> can be handed: a lookup with a
  \<^verbatim>\<open>get\<close> method keyed by pairs (a dict, a pandas series), a dict of dicts keyed by the
  query id and then by the document id, and a list of dicts indexed by the query id,
  as in the docstring of \<^verbatim>\<open>TfidfRetrieval\<close>.
\<close>

datatype judgments =
    PairKeyed "int \<times> int \<Rightarrow> int option"
  | NestedDict "int \<Rightarrow> (int \<Rightarrow> int option) option"
  | NestedList "(int \<Rightarrow> int option) list"

text \<open>Python's \<^verbatim>\<open>xs[i]\<close> on a list: a negative index counts from the end.\<close>

definition py_index :: "'a list \<Rightarrow> int \<Rightarrow> error + 'a" where
  "py_index xs i =
     (if 0 \<le> i \<and> i < int (length xs) then Inr (xs ! nat i)
      else if i < 0 \<and> - int (length xs) \<le> i then Inr (xs ! nat (int (length xs) + i))
      else Inl IndexError)"

text \<open>\<^verbatim>\<open>[Y[qid][docid] for docid in result]\<close> on a list of dicts.\<close>

fun index_each :: "(int \<Rightarrow> int option) list \<Rightarrow> int \<Rightarrow> int list \<Rightarrow> error + int list" where
  "index_each Y qid [] = Inr []"
| "index_each Y qid (docid # result) =
     (case py_index Y qid of
        Inl e \<Rightarrow> Inl e
      | Inr d \<Rightarrow>
          (case d docid of
             None \<Rightarrow> Inl KeyError
           | Some r \<Rightarrow>
               (case index_each Y qid result of
                  Inl e \<Rightarrow> Inl e
                | Inr rs \<Rightarrow> Inr (r # rs))))"

text \<open>
  Lines 210 to 213 of \<^verbatim>\<open>evaluate\<close>:
  \<^verbatim>\<open>
    try:
        r = [Y.get((qid, docid), 0) for docid in result]
    except AttributeError:
        r = [Y[qid][docid] for docid in result]
  \<close>
  A dict of dicts has a \<^verbatim>\<open>get\<close> method, so the first branch answers: the pair is not one
  of its keys, which are query ids, and the default comes back. A list has no \<^verbatim>\<open>get\<close>:
  on the first document the attribute error sends control to the second branch.
\<close>

definition relevance :: "judgments \<Rightarrow> int \<Rightarrow> int list \<Rightarrow> error + int list" where
  "relevance Y qid result =
     (case Y of
        PairKeyed m \<Rightarrow>
          Inr (map (\<lambda>docid. case m (qid, docid) of None \<Rightarrow> 0 | Some r \<Rightarrow> r) result)
      | NestedDict m \<Rightarrow> Inr (map (\<lambda>docid. 0) result)
      | NestedList l \<Rightarrow> index_each l qid result)"

text \<open>
  The module \<^verbatim>\<open>rank_metrics\<close> and \<^verbatim>\<open>np.mean\<close> compute on floating-point numbers; they are
  parameters, and \<open>'v\<close> is the type of their values.
\<close>

record 'v rank_metrics =
  ndcg_at_k :: "int list \<Rightarrow> int \<Rightarrow> nat \<Rightarrow> 'v"
  mean_reciprocal_rank :: "int list list \<Rightarrow> 'v"
  mean_average_precision :: "int list list \<Rightarrow> 'v"
  np_mean :: "'v list \<Rightarrow> 'v"

definition VALID_METRICS :: "string list" where
  "VALID_METRICS = [''mean_reciprocal_rank'', ''mean_average_precision'', ''average_ndcg_at_k'']"

text \<open>\<^verbatim>\<open>average_ndcg_at_k(rs, k, method=1)\<close>, lines 90 to 93.\<close>

definition average_ndcg_at_k :: "'v rank_metrics \<Rightarrow> int list list \<Rightarrow> int \<Rightarrow> 'v" where
  "average_ndcg_at_k rm rs k = np_mean rm (map (\<lambda>r. ndcg_at_k rm r k 1) rs)"

text \<open>
  The loop of \<^verbatim>\<open>evaluate\<close>, lines 199 to 216, over the pairs of a query id and a query.
  \<open>query\<close> is the abstract method of the mixin.
\<close>

fun collect_relevance ::
  "('d \<Rightarrow> int \<Rightarrow> error + int list) \<Rightarrow> judgments \<Rightarrow> int \<Rightarrow> (int \<times> 'd) list
     \<Rightarrow> error + int list list" where
  "collect_relevance query Y k [] = Inr []"
| "collect_relevance query Y k ((qid, text) # X) =
     (case query text k of
        Inl e \<Rightarrow> Inl e
      | Inr result \<Rightarrow>
          (case relevance Y qid result of
             Inl e \<Rightarrow> Inl e
           | Inr r \<Rightarrow>
               (case collect_relevance query Y k X of
                  Inl e \<Rightarrow> Inl e
                | Inr rs \<Rightarrow> Inr (r # rs))))"

text \<open>\<^verbatim>\<open>RetriEvalMixin.evaluate\<close>, lines 194 to 224.\<close>

definition evaluate ::
  "('d \<Rightarrow> int \<Rightarrow> error + int list) \<Rightarrow> 'v rank_metrics \<Rightarrow> (int \<times> 'd) list \<Rightarrow> judgments
     \<Rightarrow> int \<Rightarrow> string list \<Rightarrow> error + (string \<Rightarrow> 'v option)" where
  "evaluate query rm X Y k metrics =
     (case collect_relevance query Y k X of
        Inl e \<Rightarrow> Inl e
      | Inr rs \<Rightarrow>
          (let values0 = Map.empty;
               values1 = (if ''average_ndcg_at_k'' \<in> set metrics
                          then values0(''average_ndcg_at_k'' \<mapsto> average_ndcg_at_k rm rs k)
                          else values0);
               values2 = (if ''mean_reciprocal_rank'' \<in> set metrics
                          then values1(''mean_reciprocal_rank'' \<mapsto> mean_reciprocal_rank rm rs)
                          else values1);
               values3 = (if ''mean_average_precision'' \<in> set metrics
                          then values2(''mean_average_precision'' \<mapsto> mean_average_precision rm rs)
                          else values2)
           in Inr values3))"

section \<open>Stores and the calls that change them\<close>

text \<open>
  The boolean index, the weighted matrix and the identifiers are assigned and have as
  many rows as the stored document count says.
\<close>

definition aligned :: "('d, 'cv, 'tv, 'w) retrieval \<Rightarrow> bool" where
  "aligned self =
     (case self_inv_X self of None \<Rightarrow> False | Some M \<Rightarrow>
      case self_X self of None \<Rightarrow> False | Some W \<Rightarrow>
      case self_y self of None \<Rightarrow> False | Some ids \<Rightarrow>
      case self_n_docs self of None \<Rightarrow> False | Some n \<Rightarrow>
        n_rows M = n \<and> n_rows W = n \<and> length ids = n)"

text \<open>
  Both vectorizers are fitted, each matrix has the width of its vectorizer, and there is
  at least one identifier.
\<close>

definition fitted :: "('d, 'cv, 'tv, 'w) sklearn \<Rightarrow> ('d, 'cv, 'tv, 'w) retrieval \<Rightarrow> bool" where
  "fitted env self =
     (case self_cv self of None \<Rightarrow> False | Some cv \<Rightarrow>
      case self_inv_X self of None \<Rightarrow> False | Some M \<Rightarrow>
      case self_vectorizer self of None \<Rightarrow> False | Some tv \<Rightarrow>
      case self_X self of None \<Rightarrow> False | Some W \<Rightarrow>
      case self_y self of None \<Rightarrow> False | Some ids \<Rightarrow>
      case self_n_docs self of None \<Rightarrow> False | Some n \<Rightarrow>
        n_cols M = cv_n_features env cv \<and> n_cols W = tfidf_n_features env tv \<and> ids \<noteq> [])"

text \<open>
  What every call keeps of the boolean index: the source documents are not stored, the
  matching function is \<open>TermMatch\<close>, and an index that is assigned comes with a fitted
  vectorizer of the same width and has rows of that width.
\<close>

definition index_ok :: "('d, 'cv, 'tv, 'w) sklearn \<Rightarrow> ('d, 'cv, 'tv, 'w) retrieval \<Rightarrow> bool" where
  "index_ok env self =
     (self_fit_X self = None \<and> self_match_fn self = Some TermMatch \<and>
      (case self_inv_X self of
         None \<Rightarrow> True
       | Some M \<Rightarrow>
           (case self_cv self of
              None \<Rightarrow> False
            | Some cv \<Rightarrow> n_cols M = cv_n_features env cv \<and> rectangular M)))"

text \<open>
  A call of the public interface that changes the store, and a history of such calls on
  one object. A call that raises leaves the object as it is at that point, and the next
  call works on that object.
\<close>

datatype 'd call = Fit "'d list" "int list option" | PartialFit "'d list" "int list option"

fun perform ::
  "('d, 'cv, 'tv, 'w) sklearn \<Rightarrow> ('d, 'cv, 'tv, 'w) retrieval \<Rightarrow> 'd call
     \<Rightarrow> error option \<times> ('d, 'cv, 'tv, 'w) retrieval" where
  "perform env self (Fit X y) = TfidfRetrieval_fit env self X y"
| "perform env self (PartialFit X y) = TfidfRetrieval_partial_fit env self X y"

fun run ::
  "('d, 'cv, 'tv, 'w) sklearn \<Rightarrow> ('d, 'cv, 'tv, 'w) retrieval \<Rightarrow> 'd call list
     \<Rightarrow> ('d, 'cv, 'tv, 'w) retrieval" where
  "run env self [] = self"
| "run env self (c # cs) = run env (snd (perform env self c)) cs"

text \<open>Every call of the history returns, none raises.\<close>

fun all_return ::
  "('d, 'cv, 'tv, 'w) sklearn \<Rightarrow> ('d, 'cv, 'tv, 'w) retrieval \<Rightarrow> 'd call list \<Rightarrow> bool" where
  "all_return env self [] = True"
| "all_return env self (c # cs) =
     (fst (perform env self c) = None \<and> all_return env (snd (perform env self c)) cs)"

section \<open>An instance of the external capabilities\<close>

text \<open>
  An instance on which the model runs: a document is a string, its terms are its
  characters, the vocabulary is the characters of the fitted batch in order of first
  occurrence, the weight of a term in a document is its number of occurrences, and the
  neighbours are the rows in order of decreasing inner product with the query (the
  earlier row first among equals).
\<close>

definition inner_product :: "nat list \<Rightarrow> nat list \<Rightarrow> nat" where
  "inner_product xs ys = sum_list (map (\<lambda>(a, b). a * b) (zip xs ys))"

definition char_vocabulary :: "string list \<Rightarrow> string option" where
  "char_vocabulary docs = (if concat docs = [] then None else Some (remdups (concat docs)))"

definition by_inner_product :: "nat matrix \<Rightarrow> nat matrix \<Rightarrow> int \<Rightarrow> error + nat list" where
  "by_inner_product Xm q n =
     (if 0 < n \<and> n \<le> int (n_rows Xm) \<and> n_rows q = 1
      then Inr (take (nat n)
                 (sort_key (\<lambda>i. - int (inner_product (rows Xm ! i) (hd (rows q))))
                    [0..<n_rows Xm]))
      else Inl (ValueError ''n_neighbors''))"

definition char_sklearn :: "(string, string, string, nat) sklearn" where
  "char_sklearn =
     \<lparr>cv_fit = char_vocabulary,
      cv_n_features = length,
      cv_present = (\<lambda>v d j. v ! j \<in> set d),
      tfidf_fit = char_vocabulary,
      tfidf_n_features = length,
      tfidf_weight = (\<lambda>v d j. count_list d (v ! j)),
      kneighbors = by_inner_product\<rparr>"

text \<open>
  The store after \<^verbatim>\<open>fit(["ab", "bc", "cd"])\<close> on a new object, and the same store after
  \<^verbatim>\<open>partial_fit(["da", "e"])\<close>.
\<close>

definition example_store :: "(string, string, string, nat) retrieval" where
  "example_store =
     snd (TfidfRetrieval_fit char_sklearn TfidfRetrieval_init [''ab'', ''bc'', ''cd''] None)"

definition extended_store :: "(string, string, string, nat) retrieval" where
  "extended_store =
     snd (TfidfRetrieval_partial_fit char_sklearn example_store [''da'', ''e''] None)"

text \<open>
  The same instance with a stop word for the tf-idf vectorizer only: the constructor
  hands its keyword arguments to \<^verbatim>\<open>TfidfVectorizer\<close>, while \<^verbatim>\<open>_init_params\<close> builds the
  count vectorizer without them. The tf-idf vectorizer drops the character \<open>e\<close> when it
  learns its vocabulary.
\<close>

definition stop_sklearn :: "(string, string, string, nat) sklearn" where
  "stop_sklearn =
     char_sklearn\<lparr>tfidf_fit := \<lambda>docs. char_vocabulary (map (filter (\<lambda>c. c \<noteq> CHR ''e'')) docs)\<rparr>"


text \<open>
  An object with that tf-idf vectorizer after \<^verbatim>\<open>fit(["ab", "bc"])\<close>, which returns, and
  \<^verbatim>\<open>fit(["e", "e", "e"])\<close>, which raises in the tf-idf vectorizer.
\<close>

definition stale_store :: "(string, string, string, nat) retrieval" where
  "stale_store =
     run stop_sklearn TfidfRetrieval_init [Fit [''ab'', ''bc''] None, Fit [''e'', ''e'', ''e''] None]"

text \<open>A new object after \<^verbatim>\<open>fit(["ab"], [9223372036854775807])\<close>, the largest 64-bit value.\<close>

definition max_id_store :: "(string, string, string, nat) retrieval" where
  "max_id_store =
     snd (TfidfRetrieval_fit char_sklearn TfidfRetrieval_init [''ab'']
            (Some [9223372036854775807]))"

text \<open>Metric functions that give every result the same value.\<close>

definition constant_metrics :: "'v \<Rightarrow> 'v rank_metrics" where
  "constant_metrics v =
     \<lparr>ndcg_at_k = (\<lambda>r k method. v),
      mean_reciprocal_rank = (\<lambda>rs. v),
      mean_average_precision = (\<lambda>rs. v),
      np_mean = (\<lambda>vs. v)\<rparr>"

section \<open>Properties of the matching step\<close>

lemma set_nonzero_in_row: "set (nonzero_in_row r) = {j. j < length r \<and> r ! j}"
  by (auto simp: nonzero_in_row_def in_set_enumerate_eq image_iff)

lemma nonzero_in_row_bound: "j \<in> set (nonzero_in_row r) \<Longrightarrow> j < length r"
  by (simp add: set_nonzero_in_row)

lemma distinct_remdups_adj_sorted: "sorted xs \<Longrightarrow> distinct (remdups_adj xs)"
  by (induction xs rule: remdups_adj.induct) auto

lemma np_unique_strict: "sorted_wrt (<) (np_unique xs)"
  by (simp add: np_unique_def strict_sorted_iff distinct_remdups_adj_sorted)

lemma set_np_unique: "set (np_unique xs) = set xs"
  by (simp add: np_unique_def)

lemma take_rows_transpose:
  assumes "\<forall>j\<in>set idx. j < n_cols X"
  shows "take_rows (mtranspose X) idx =
           Inr \<lparr>rows = map (\<lambda>j. map (\<lambda>r. r ! j) (rows X)) idx, n_cols = length (rows X)\<rparr>"
  using assms by (simp add: take_rows_def mtranspose_def list_all_iff)

lemma set_nonzero_cols_columns:
  "set (nonzero_cols \<lparr>rows = map (\<lambda>j. map (\<lambda>r. r ! j) rs) idx, n_cols = n\<rparr>) =
     {i. i < length rs \<and> (\<exists>j\<in>set idx. rs ! i ! j)}"
  by (auto simp: nonzero_cols_def set_nonzero_in_row)

text \<open>
  On a term-document matrix and a one-row query over the same terms, \<open>TermMatch\<close> does
  not raise, and returns in strictly increasing order the rows that share a term with
  the query.
\<close>

lemma TermMatch_correct:
  assumes "rectangular X" and "rectangular q" and "n_rows q = 1" and "n_cols q = n_cols X"
  shows "\<exists>inds. TermMatch X q = Inr inds \<and> sorted_wrt (<) inds \<and>
           set inds = {i. i < n_rows X \<and> (\<exists>j<n_cols X. rows X ! i ! j \<and> hd (rows q) ! j)}"
proof -
  from assms(3) obtain qr where qr: "rows q = [qr]"
    by (cases "rows q") (auto simp: n_rows_def)
  with assms(2,4) have len: "length qr = n_cols X"
    by (simp add: rectangular_def)
  have terms: "nonzero_cols q = nonzero_in_row qr"
    by (simp add: nonzero_cols_def qr)
  have bound: "\<forall>j\<in>set (nonzero_in_row qr). j < n_cols X"
    using len by (simp add: set_nonzero_in_row)
  let ?hits = "nonzero_cols
      \<lparr>rows = map (\<lambda>j. map (\<lambda>r. r ! j) (rows X)) (nonzero_in_row qr), n_cols = length (rows X)\<rparr>"
  have "TermMatch X q = Inr (np_unique ?hits)"
    by (simp add: TermMatch_def terms take_rows_transpose [OF bound])
  moreover have "set (np_unique ?hits) =
        {i. i < n_rows X \<and> (\<exists>j<n_cols X. rows X ! i ! j \<and> hd (rows q) ! j)}"
    using len by (auto simp: set_np_unique set_nonzero_cols_columns set_nonzero_in_row n_rows_def qr)
  ultimately show ?thesis
    by (simp add: np_unique_strict)
qed

lemmas TermMatch_eval =
  TermMatch_def fixture_X_def query_row_def mtranspose_def nonzero_cols_def
  nonzero_in_row_def take_rows_def np_unique_def upt_conv_Cons

lemma TermMatch_fixture_001:
  "TermMatch fixture_X (query_row [False, False, True]) = Inr [0, 2, 4]"
  by (simp add: TermMatch_eval)

lemma TermMatch_fixture_111:
  "TermMatch fixture_X (query_row [True, True, True]) = Inr [0, 1, 2, 3, 4, 5]"
  by (simp add: TermMatch_eval)

lemma TermMatch_fixture_000:
  "TermMatch fixture_X (query_row [False, False, False]) = Inr []"
  by (simp add: TermMatch_eval)

text \<open>
  Claim C1. For every boolean term-document matrix \<open>X\<close> (documents by terms) and every
  boolean query \<open>q\<close> with one row over the same terms, \<open>TermMatch X q\<close> returns, as a
  strictly increasing sequence, exactly the indices of the rows that have a term in
  common with the query. On the six rows of the fixture the query 001 gives 0, 2, 4, the
  query 111 gives all six indices and the query 000 gives the empty sequence.
\<close>

theorem C1_TermMatch_exact:
  "(rectangular X \<and> rectangular q \<and> n_rows q = 1 \<and> n_cols q = n_cols X \<longrightarrow>
      (\<exists>inds. TermMatch X q = Inr inds \<and> sorted_wrt (<) inds \<and>
         set inds = {i. i < n_rows X \<and> (\<exists>j<n_cols X. rows X ! i ! j \<and> hd (rows q) ! j)}))
   \<and> TermMatch fixture_X (query_row [False, False, True]) = Inr [0, 2, 4]
   \<and> TermMatch fixture_X (query_row [True, True, True]) = Inr [0, 1, 2, 3, 4, 5]
   \<and> TermMatch fixture_X (query_row [False, False, False]) = Inr []"
  using TermMatch_correct [of X q] TermMatch_fixture_001 TermMatch_fixture_111
    TermMatch_fixture_000
  by blast

theorem C1_TermMatch_exact_witness:
  "rectangular fixture_X \<and> rectangular (query_row [False, True, False])
   \<and> n_rows (query_row [False, True, False]) = 1
   \<and> n_cols (query_row [False, True, False]) = n_cols fixture_X
   \<and> (\<exists>inds. TermMatch fixture_X (query_row [False, True, False]) = Inr inds
        \<and> sorted_wrt (<) inds
        \<and> set inds = {i. i < n_rows fixture_X \<and>
             (\<exists>j<n_cols fixture_X. rows fixture_X ! i ! j
                \<and> hd (rows (query_row [False, True, False])) ! j)})"
proof -
  have h: "rectangular fixture_X \<and> rectangular (query_row [False, True, False])
      \<and> n_rows (query_row [False, True, False]) = 1
      \<and> n_cols (query_row [False, True, False]) = n_cols fixture_X"
    by (simp add: rectangular_def fixture_X_def query_row_def n_rows_def)
  from C1_TermMatch_exact [of fixture_X "query_row [False, True, False]"] h
  show ?thesis by blast
qed

section \<open>Running the instance\<close>

lemmas model_eval =
  TfidfRetrieval_fit_def RetrievalBase_fit_def TfidfRetrieval_partial_fit_def
  RetrievalBase_partial_fit_def TfidfRetrieval_init_def checkXy_def char_sklearn_def
  char_vocabulary_def cv_transform_def tfidf_transform_def tfidf_rows_def arange_def
  arange_int64_def int64_def vstack_def upt_conv_Cons upto.simps Let_def

lemmas query_eval =
  TfidfRetrieval_query_def RetrievalBase_matching_def TermMatch_def mtranspose_def
  nonzero_cols_def nonzero_in_row_def take_rows_def take_items_def np_unique_def
  cv_transform_def tfidf_transform_def tfidf_rows_def char_sklearn_def by_inner_product_def
  inner_product_def n_rows_def upt_conv_Cons Let_def

lemma example_store_eq:
  "example_store =
     \<lparr>self_match_fn = Some TermMatch, self_cv = Some ''abcd'',
      self_inv_X = Some \<lparr>rows = [[True, True, False, False], [False, True, True, False],
                                  [False, False, True, True]], n_cols = 4\<rparr>,
      self_fit_X = None, self_y = Some [0, 1, 2], self_n_docs = Some 3,
      self_vectorizer = Some ''abcd'',
      self_X = Some \<lparr>rows = [[1, 1, 0, 0], [0, 1, 1, 0], [0, 0, 1, 1]], n_cols = 4\<rparr>\<rparr>"
  by (simp add: example_store_def model_eval)

lemma extended_store_eq:
  "extended_store =
     \<lparr>self_match_fn = Some TermMatch, self_cv = Some ''abcd'',
      self_inv_X = Some \<lparr>rows = [[True, True, False, False], [False, True, True, False],
                                  [False, False, True, True], [True, False, False, True],
                                  [False, False, False, False]], n_cols = 4\<rparr>,
      self_fit_X = None, self_y = Some [0, 1, 2, 3, 4], self_n_docs = Some 5,
      self_vectorizer = Some ''abcd'',
      self_X = Some \<lparr>rows = [[1, 1, 0, 0], [0, 1, 1, 0], [0, 0, 1, 1], [1, 0, 0, 1],
                              [0, 0, 0, 0]], n_cols = 4\<rparr>\<rparr>"
  by (simp add: extended_store_def example_store_eq model_eval)

lemma fit_example:
  "TfidfRetrieval_fit char_sklearn TfidfRetrieval_init [''ab'', ''bc'', ''cd''] None
     = (None, example_store)"
  by (simp add: example_store_eq model_eval)

lemma partial_fit_example:
  "TfidfRetrieval_partial_fit char_sklearn example_store [''da'', ''e''] None
     = (None, extended_store)"
  by (simp add: extended_store_eq) (simp add: example_store_eq model_eval)

lemma stale_store_eq:
  "stale_store =
     \<lparr>self_match_fn = Some TermMatch, self_cv = Some ''e'',
      self_inv_X = Some \<lparr>rows = [[True], [True], [True]], n_cols = 1\<rparr>,
      self_fit_X = None, self_y = Some [0, 1, 2], self_n_docs = Some 3,
      self_vectorizer = Some ''abc'',
      self_X = Some \<lparr>rows = [[1, 1, 0], [0, 1, 1]], n_cols = 3\<rparr>\<rparr>"
  by (simp add: stale_store_def stop_sklearn_def model_eval)


lemma max_id_store_eq:
  "max_id_store =
     \<lparr>self_match_fn = Some TermMatch, self_cv = Some ''ab'',
      self_inv_X = Some \<lparr>rows = [[True, True]], n_cols = 2\<rparr>,
      self_fit_X = None, self_y = Some [9223372036854775807], self_n_docs = Some 1,
      self_vectorizer = Some ''ab'',
      self_X = Some \<lparr>rows = [[1, 1]], n_cols = 2\<rparr>\<rparr>"
  by (simp add: max_id_store_def model_eval)

lemma query_example:
  "TfidfRetrieval_query char_sklearn example_store ''bc'' 1 = Inr [1]"
  by (simp add: example_store_eq query_eval)


section \<open>Fitting and extending the store\<close>

lemma length_arange: "length (arange a (a + int n)) = n"
  by (simp add: arange_def)

lemma length_arange_int64: "length (arange_int64 a n) = n"
  by (simp add: arange_int64_def)

lemma int64_id: "- (2 ^ 63) \<le> x \<Longrightarrow> x < 2 ^ 63 \<Longrightarrow> int64 x = x"
  by (simp add: int64_def)

lemma wrap_add:
  fixes a b c d :: int
  shows "((a + c) mod d - c + b + c) mod d = (a + b + c) mod d"
proof -
  have "((a + c) mod d - c + b + c) mod d = ((a + c) mod d + b) mod d"
    by simp
  also have "\<dots> = (a + c + b) mod d"
    by (rule mod_add_left_eq)
  also have "a + c + b = a + b + c"
    by simp
  finally show ?thesis .
qed

lemma int64_add_left: "int64 (int64 a + b) = int64 (a + b)"
  unfolding int64_def by (simp only: wrap_add)

lemma map_add_upt: "map (\<lambda>i. a + int i) [0..<n] = [a..a + int n - 1]"
proof (induction n)
  case 0
  then show ?case by simp
next
  case (Suc n)
  have "[a..a + int (Suc n) - 1] = [a..a + int n - 1] @ [a + int n]"
    using upto_rec2 [of a "a + int n"] by simp
  with Suc show ?case by simp
qed

lemma arange_int64_exact:
  assumes "- (2 ^ 63) \<le> m + 1" and "m + int n < 2 ^ 63"
  shows "arange_int64 (int64 (m + 1)) n = [m + 1..m + int n]"
proof -
  have "int64 (int64 (m + 1) + int i) = m + 1 + int i" if "i < n" for i
  proof -
    have "int64 (int64 (m + 1) + int i) = int64 (m + 1 + int i)"
      by (rule int64_add_left)
    also have "\<dots> = m + 1 + int i"
      using that assms by (intro int64_id) linarith+
    finally show ?thesis .
  qed
  then have "arange_int64 (int64 (m + 1)) n = map (\<lambda>i. m + 1 + int i) [0..<n]"
    by (simp add: arange_int64_def)
  also have "\<dots> = [m + 1..m + 1 + int n - 1]"
    by (rule map_add_upt)
  also have "m + 1 + int n - 1 = m + int n"
    by simp
  finally show ?thesis .
qed

lemma fold_max_Max: "fold max xs x = Max (set (x # xs))"
  by (rule Max.set_eq_fold [symmetric])

lemma amax_Max: "amax ids = Inr m \<Longrightarrow> ids \<noteq> [] \<and> m = Max (set ids)"
  by (cases ids) (auto simp: fold_max_Max)

lemma amax_error:
  "amax ids = Inl e \<Longrightarrow> e \<noteq> ValueError ''Shapes of X and y do not match.''"
  by (cases ids) auto

lemma Min_upto: "a \<le> b \<Longrightarrow> Min (set [a..b]) = (a::int)"
  by (auto intro: Min_eqI)

lemma checkXy_None: "checkXy X y = None \<longleftrightarrow> (\<forall>ys. y = Some ys \<longrightarrow> length X = length ys)"
  by (auto simp: checkXy_def split: option.splits)

lemma length_new_ids:
  assumes "checkXy X y = None"
  shows "length (case y of None \<Rightarrow> arange a (a + int (length X)) | Some ys \<Rightarrow> ys) = length X"
    and "length (case y of None \<Rightarrow> arange_int64 b (length X) | Some ys \<Rightarrow> ys) = length X"
  using assms length_arange [of a "length X"]
  by (auto simp: checkXy_None length_arange_int64 split: option.splits)

lemma tfidf_transform_Inr:
  "tfidf_transform env tv X = Inr W \<longleftrightarrow> X \<noteq> [] \<and> W = tfidf_rows env tv X"
  by (auto simp: tfidf_transform_def)

lemma tfidf_transform_Inl:
  "tfidf_transform env tv X = Inl e \<longleftrightarrow> X = [] \<and> e = ValueError ''Found array with 0 sample(s)''"
  by (auto simp: tfidf_transform_def)

text \<open>What a call that returns has done to the store.\<close>

lemma RetrievalBase_fit_success:
  assumes "RetrievalBase_fit env self X y = (None, s')"
  shows "\<exists>cv. cv_fit env X = Some cv \<and> checkXy X y = None \<and>
           s' = self\<lparr>self_cv := Some cv, self_inv_X := Some (cv_transform env cv X),
                     self_y := Some (case y of None \<Rightarrow> arange 0 (0 + int (length X)) | Some ys \<Rightarrow> ys),
                     self_n_docs := Some (length X)\<rparr>"
  using assms by (auto simp: RetrievalBase_fit_def Let_def split: option.splits)

lemma TfidfRetrieval_fit_success:
  assumes "TfidfRetrieval_fit env self X y = (None, s')"
  shows "\<exists>cv tv. cv_fit env X = Some cv \<and> tfidf_fit env X = Some tv \<and> checkXy X y = None \<and>
           X \<noteq> [] \<and>
           s' = self\<lparr>self_cv := Some cv, self_inv_X := Some (cv_transform env cv X),
                     self_y := Some (case y of None \<Rightarrow> arange 0 (0 + int (length X)) | Some ys \<Rightarrow> ys),
                     self_n_docs := Some (length X),
                     self_vectorizer := Some tv, self_X := Some (tfidf_rows env tv X)\<rparr>"
proof -
  from assms obtain s1 where b: "RetrievalBase_fit env self X y = (None, s1)"
    by (auto simp: TfidfRetrieval_fit_def split: option.splits prod.splits)
  from RetrievalBase_fit_success [OF b] assms b show ?thesis
    by (auto simp: TfidfRetrieval_fit_def Let_def tfidf_transform_Inr
        split: option.splits sum.splits)
qed

lemma RetrievalBase_partial_fit_success:
  assumes "RetrievalBase_partial_fit env self X y = (None, s')"
  shows "\<exists>M cv ids m n. self_inv_X self = Some M \<and> self_cv self = Some cv \<and>
           n_cols M = cv_n_features env cv \<and> self_y self = Some ids \<and> amax ids = Inr m \<and>
           self_n_docs self = Some n \<and> checkXy X y = None \<and>
           s' = self\<lparr>self_inv_X :=
                       Some \<lparr>rows = rows M @ rows (cv_transform env cv X), n_cols = n_cols M\<rparr>,
                     self_y := Some (ids @ (case y of
                         None \<Rightarrow> arange_int64 (int64 (m + 1)) (length X) | Some ys \<Rightarrow> ys)),
                     self_n_docs := Some (n + length X)\<rparr>"
  using assms
  by (auto simp: RetrievalBase_partial_fit_def Let_def vstack_def cv_transform_def
      split: option.splits sum.splits if_splits)

lemma TfidfRetrieval_partial_fit_success:
  assumes "TfidfRetrieval_partial_fit env self X y = (None, s')"
  shows "\<exists>M cv ids m n tv W. self_inv_X self = Some M \<and> self_cv self = Some cv \<and>
           n_cols M = cv_n_features env cv \<and> self_y self = Some ids \<and> amax ids = Inr m \<and>
           self_n_docs self = Some n \<and> checkXy X y = None \<and>
           self_vectorizer self = Some tv \<and> self_X self = Some W \<and>
           n_cols W = tfidf_n_features env tv \<and> X \<noteq> [] \<and>
           s' = self\<lparr>self_inv_X :=
                       Some \<lparr>rows = rows M @ rows (cv_transform env cv X), n_cols = n_cols M\<rparr>,
                     self_y := Some (ids @ (case y of
                         None \<Rightarrow> arange_int64 (int64 (m + 1)) (length X) | Some ys \<Rightarrow> ys)),
                     self_n_docs := Some (n + length X),
                     self_X :=
                       Some \<lparr>rows = rows W @ rows (tfidf_rows env tv X), n_cols = n_cols W\<rparr>\<rparr>"
proof -
  from assms obtain s1 where b: "RetrievalBase_partial_fit env self X y = (None, s1)"
    by (auto simp: TfidfRetrieval_partial_fit_def split: option.splits prod.splits)
  from RetrievalBase_partial_fit_success [OF b] assms b show ?thesis
    by (auto simp: TfidfRetrieval_partial_fit_def Let_def vstack_def tfidf_transform_Inr
        tfidf_rows_def split: option.splits sum.splits if_splits)
qed

lemma length_rows_transform:
  "length (rows (cv_transform env cv X)) = length X"
  "length (rows (tfidf_rows env tv X)) = length X"
  by (simp_all add: cv_transform_def tfidf_rows_def)

subsection \<open>The shape check\<close>

lemma shape_error_iff_fit:
  "fst (TfidfRetrieval_fit env s X y) = Some (ValueError ''Shapes of X and y do not match.'')
     \<longleftrightarrow> (\<exists>ys. y = Some ys \<and> length X \<noteq> length ys)"
  by (auto simp: TfidfRetrieval_fit_def RetrievalBase_fit_def checkXy_def Let_def
      tfidf_transform_Inl split: option.splits prod.splits sum.splits)

lemma shape_error_iff_base_partial_fit:
  "fst (RetrievalBase_partial_fit env s X y) = Some (ValueError ''Shapes of X and y do not match.'')
     \<longleftrightarrow> (\<exists>ys. y = Some ys \<and> length X \<noteq> length ys)"
  by (auto simp: RetrievalBase_partial_fit_def checkXy_def Let_def vstack_def
      split: option.splits sum.splits dest: amax_error)

lemma shape_error_iff_partial_fit:
  "fst (TfidfRetrieval_partial_fit env s X y) = Some (ValueError ''Shapes of X and y do not match.'')
     \<longleftrightarrow> (\<exists>ys. y = Some ys \<and> length X \<noteq> length ys)"
proof -
  obtain rb sb where b: "RetrievalBase_partial_fit env s X y = (rb, sb)"
    by (cases "RetrievalBase_partial_fit env s X y")
  have "fst (TfidfRetrieval_partial_fit env s X y) = Some (ValueError ''Shapes of X and y do not match.'')
      \<longleftrightarrow> rb = Some (ValueError ''Shapes of X and y do not match.'')"
  proof (cases rb)
    case None
    then show ?thesis
      by (auto simp: TfidfRetrieval_partial_fit_def b vstack_def tfidf_transform_def
          split: option.splits sum.splits if_splits)
  next
    case (Some e)
    then show ?thesis
      by (simp add: TfidfRetrieval_partial_fit_def b)
  qed
  with shape_error_iff_base_partial_fit [of env s X y] b show ?thesis
    by simp
qed

lemma shape_error_unchanged:
  assumes "y = Some ys" and "length X \<noteq> length ys"
  shows "snd (TfidfRetrieval_fit env s X y) = s"
    and "snd (TfidfRetrieval_partial_fit env s X y) = s"
  using assms
  by (simp_all add: TfidfRetrieval_fit_def RetrievalBase_fit_def TfidfRetrieval_partial_fit_def
        RetrievalBase_partial_fit_def checkXy_def)

text \<open>
  Claim C5. \<open>fit\<close> and \<open>partial_fit\<close> raise the shape error of \<open>checkXy\<close> exactly when
  identifiers are supplied and their number differs from the number of documents; the
  store is then left as it was, so neither sequence is stored cut or filled up. Without
  identifiers the check passes and that error is not raised.
\<close>

theorem C5_shape_mismatch:
  "(fst (TfidfRetrieval_fit env s X y) = Some (ValueError ''Shapes of X and y do not match.'')
      \<longleftrightarrow> (\<exists>ys. y = Some ys \<and> length X \<noteq> length ys))
   \<and> (fst (TfidfRetrieval_partial_fit env s X y)
        = Some (ValueError ''Shapes of X and y do not match.'')
      \<longleftrightarrow> (\<exists>ys. y = Some ys \<and> length X \<noteq> length ys))
   \<and> ((\<exists>ys. y = Some ys \<and> length X \<noteq> length ys) \<longrightarrow>
        snd (TfidfRetrieval_fit env s X y) = s
        \<and> snd (TfidfRetrieval_partial_fit env s X y) = s)
   \<and> checkXy X (None :: int list option) = None"
  using shape_error_iff_fit [of env s X y] shape_error_iff_partial_fit [of env s X y]
    shape_error_unchanged [of y _ X env s]
  by (auto simp: checkXy_def)

theorem C5_shape_mismatch_witness:
  "fst (TfidfRetrieval_fit char_sklearn TfidfRetrieval_init [''ab'', ''bc'', ''cd''] (Some [7, 8]))
     = Some (ValueError ''Shapes of X and y do not match.'')
   \<and> snd (TfidfRetrieval_fit char_sklearn TfidfRetrieval_init [''ab'', ''bc'', ''cd''] (Some [7, 8]))
     = TfidfRetrieval_init
   \<and> fst (TfidfRetrieval_partial_fit char_sklearn example_store [''da'', ''e''] (Some [7]))
     = Some (ValueError ''Shapes of X and y do not match.'')
   \<and> snd (TfidfRetrieval_partial_fit char_sklearn example_store [''da'', ''e''] (Some [7]))
     = example_store
   \<and> fst (TfidfRetrieval_partial_fit char_sklearn example_store [''da'', ''e''] None)
     \<noteq> Some (ValueError ''Shapes of X and y do not match.'')"
  using C5_shape_mismatch [of char_sklearn TfidfRetrieval_init "[''ab'', ''bc'', ''cd'']" "Some [7, 8]"]
    C5_shape_mismatch [of char_sklearn example_store "[''da'', ''e'']" "Some [7]"]
    C5_shape_mismatch [of char_sklearn example_store "[''da'', ''e'']" None]
  by simp

subsection \<open>Row alignment\<close>

lemma fit_aligned:
  assumes "TfidfRetrieval_fit env s X y = (None, s')"
  shows "aligned s'"
proof -
  from TfidfRetrieval_fit_success [OF assms] obtain cv tv where
    c: "checkXy X y = None" and
    s': "s' = s\<lparr>self_cv := Some cv, self_inv_X := Some (cv_transform env cv X),
                 self_y := Some (case y of None \<Rightarrow> arange 0 (0 + int (length X)) | Some ys \<Rightarrow> ys),
                 self_n_docs := Some (length X),
                 self_vectorizer := Some tv, self_X := Some (tfidf_rows env tv X)\<rparr>"
    by blast
  show ?thesis
    by (simp add: s' aligned_def n_rows_def length_rows_transform length_new_ids [OF c])
qed

lemma partial_fit_aligned:
  assumes "aligned s" and "TfidfRetrieval_partial_fit env s X y = (None, s')"
  shows "aligned s'"
proof -
  from TfidfRetrieval_partial_fit_success [OF assms(2)] obtain M cv ids m n tv W where
    c: "checkXy X y = None" and
    old: "self_inv_X s = Some M" "self_y s = Some ids" "self_n_docs s = Some n"
         "self_X s = Some W" and
    s': "s' = s\<lparr>self_inv_X :=
                   Some \<lparr>rows = rows M @ rows (cv_transform env cv X), n_cols = n_cols M\<rparr>,
                 self_y := Some (ids @ (case y of
                     None \<Rightarrow> arange_int64 (int64 (m + 1)) (length X) | Some ys \<Rightarrow> ys)),
                 self_n_docs := Some (n + length X),
                 self_X :=
                   Some \<lparr>rows = rows W @ rows (tfidf_rows env tv X), n_cols = n_cols W\<rparr>\<rparr>"
    by blast
  show ?thesis
    using assms(1) old
    by (simp add: s' aligned_def n_rows_def length_rows_transform length_new_ids [OF c])
qed

lemma perform_aligned:
  assumes "aligned s \<or> (\<exists>X y. c = Fit X y)" and "fst (perform env s c) = None"
  shows "aligned (snd (perform env s c))"
proof (cases c)
  case (Fit X y)
  with assms(2) have "TfidfRetrieval_fit env s X y = (None, snd (perform env s c))"
    by (simp add: prod_eq_iff)
  then show ?thesis by (rule fit_aligned)
next
  case (PartialFit X y)
  with assms(2) have "TfidfRetrieval_partial_fit env s X y = (None, snd (perform env s c))"
    by (simp add: prod_eq_iff)
  moreover from assms(1) PartialFit have "aligned s" by simp
  ultimately show ?thesis by (rule partial_fit_aligned [rotated])
qed

lemma aligned_run:
  "aligned s \<Longrightarrow> all_return env s calls \<Longrightarrow> aligned (run env s calls)"
proof (induction calls arbitrary: s)
  case Nil
  then show ?case by simp
next
  case (Cons c cs)
  from Cons.prems have "aligned (snd (perform env s c))"
    by (intro perform_aligned) simp_all
  with Cons.prems show ?case by (simp add: Cons.IH)
qed

lemma partial_fit_needs_index:
  "self_inv_X s = None \<Longrightarrow> fst (TfidfRetrieval_partial_fit env s X y) \<noteq> None"
  by (simp add: TfidfRetrieval_partial_fit_def RetrievalBase_partial_fit_def
      split: option.splits)

lemma aligned_history:
  assumes "calls \<noteq> []" and "all_return env TfidfRetrieval_init calls"
  shows "aligned (run env TfidfRetrieval_init calls)"
proof -
  from assms(1) obtain c cs where calls: "calls = c # cs"
    by (cases calls) auto
  with assms(2) have ok: "fst (perform env TfidfRetrieval_init c) = None"
    and rest: "all_return env (snd (perform env TfidfRetrieval_init c)) cs"
    by simp_all
  have "\<exists>X y. c = Fit X y"
  proof (cases c)
    case (Fit X y)
    then show ?thesis by blast
  next
    case (PartialFit X y)
    with ok partial_fit_needs_index [of TfidfRetrieval_init env X y] show ?thesis
      by (simp add: TfidfRetrieval_init_def)
  qed
  with ok have "aligned (snd (perform env TfidfRetrieval_init c))"
    by (intro perform_aligned) simp_all
  from aligned_run [OF this rest] show ?thesis
    by (simp add: calls)
qed

text \<open>
  Claim C2, as the code has it. After a \<open>fit\<close> that returns, and after a \<open>partial_fit\<close>
  that returns on a store where the counts were equal before the call, the boolean
  matrix, the weighted matrix and the identifier array have the same number of rows,
  which is the stored document count. So the counts are equal at the end of every
  history of calls on a new object in which no call raised.
\<close>

theorem C2_rows_aligned:
  "(TfidfRetrieval_fit env s X y = (None, s') \<longrightarrow> aligned s')
   \<and> (aligned s \<and> TfidfRetrieval_partial_fit env s X y = (None, s') \<longrightarrow> aligned s')
   \<and> (calls \<noteq> [] \<and> all_return env TfidfRetrieval_init calls \<longrightarrow>
        aligned (run env TfidfRetrieval_init calls))"
  using fit_aligned [of env s X y s'] partial_fit_aligned [of s env X y s']
    aligned_history [of calls env]
  by blast

theorem C2_rows_aligned_witness:
  "TfidfRetrieval_fit char_sklearn TfidfRetrieval_init [''ab'', ''bc'', ''cd''] None
     = (None, example_store)
   \<and> aligned example_store
   \<and> TfidfRetrieval_partial_fit char_sklearn example_store [''da'', ''e''] None
     = (None, extended_store)
   \<and> aligned extended_store
   \<and> all_return char_sklearn TfidfRetrieval_init
       [Fit [''ab'', ''bc'', ''cd''] None, PartialFit [''da'', ''e''] None]
   \<and> aligned (run char_sklearn TfidfRetrieval_init
       [Fit [''ab'', ''bc'', ''cd''] None, PartialFit [''da'', ''e''] None])"
proof -
  from C2_rows_aligned [of char_sklearn TfidfRetrieval_init "[''ab'', ''bc'', ''cd'']" None
      example_store] fit_example
  have a: "aligned example_store" by blast
  from C2_rows_aligned [of char_sklearn example_store "[''da'', ''e'']" None extended_store]
    a partial_fit_example
  have b: "aligned extended_store" by blast
  have r: "all_return char_sklearn TfidfRetrieval_init
       [Fit [''ab'', ''bc'', ''cd''] None, PartialFit [''da'', ''e''] None]"
    by (simp add: fit_example partial_fit_example)
  from C2_rows_aligned [where env = char_sklearn
      and calls = "[Fit [''ab'', ''bc'', ''cd''] None, PartialFit [''da'', ''e''] None]"] r
  have "aligned (run char_sklearn TfidfRetrieval_init
       [Fit [''ab'', ''bc'', ''cd''] None, PartialFit [''da'', ''e''] None])"
    by blast
  with a b r fit_example partial_fit_example show ?thesis by blast
qed

text \<open>
  The claim does not hold after every \<open>partial_fit\<close> that returns. \<open>fit\<close> assigns the
  boolean index, the identifiers and the document count before it fits the tf-idf
  vectorizer, and nothing is taken back when that raises: the store keeps the weighted
  matrix of the batch before. A \<open>partial_fit\<close> on that store returns, and leaves four
  boolean rows and four identifiers beside three weighted rows.
\<close>

theorem C2_stale_weights_counterexample:
  "fst (TfidfRetrieval_partial_fit stop_sklearn stale_store [''e''] None) = None
   \<and> \<not> aligned (snd (TfidfRetrieval_partial_fit stop_sklearn stale_store [''e''] None))"
  by (simp add: stale_store_eq stop_sklearn_def model_eval aligned_def n_rows_def)

subsection \<open>Identifiers assigned by \<open>partial_fit\<close>\<close>

lemma partial_fit_auto_ids:
  assumes "self_y s = Some ids" and "TfidfRetrieval_partial_fit env s X None = (None, s')"
  shows "ids \<noteq> []" and "X \<noteq> []"
    and "self_y s' = Some (ids @ map (\<lambda>i. int64 (Max (set ids) + 1 + int i)) [0..<length X])"
proof -
  from TfidfRetrieval_partial_fit_success [OF assms(2)] assms(1) obtain m where
    m: "amax ids = Inr m" and x: "X \<noteq> []" and
    y': "self_y s' = Some (ids @ arange_int64 (int64 (m + 1)) (length X))"
    by auto
  from amax_Max [OF m] have m': "m = Max (set ids)" and i: "ids \<noteq> []"
    by simp_all
  from i show "ids \<noteq> []" .
  from x show "X \<noteq> []" .
  have "arange_int64 (int64 (m + 1)) (length X)
      = map (\<lambda>i. int64 (m + 1 + int i)) [0..<length X]"
    by (simp add: arange_int64_def int64_add_left)
  with y' m' show
    "self_y s' = Some (ids @ map (\<lambda>i. int64 (Max (set ids) + 1 + int i)) [0..<length X])"
    by simp
qed

lemma partial_fit_auto_ids_exact:
  assumes "self_y s = Some ids" and "TfidfRetrieval_partial_fit env s X None = (None, s')"
    and "- (2 ^ 63) \<le> Max (set ids)" and "Max (set ids) + int (length X) < 2 ^ 63"
  shows "self_y s' = Some (ids @ [Max (set ids) + 1..Max (set ids) + int (length X)])"
    and "Min (set [Max (set ids) + 1..Max (set ids) + int (length X)]) = Max (set ids) + 1"
proof -
  from TfidfRetrieval_partial_fit_success [OF assms(2)] assms(1) obtain m where
    m: "amax ids = Inr m" and x: "X \<noteq> []" and
    y': "self_y s' = Some (ids @ arange_int64 (int64 (m + 1)) (length X))"
    by auto
  from amax_Max [OF m] have m': "m = Max (set ids)"
    by simp
  from assms(3,4) have "arange_int64 (int64 (m + 1)) (length X) = [m + 1..m + int (length X)]"
    unfolding m' by (intro arange_int64_exact) simp_all
  with y' m' show "self_y s' = Some (ids @ [Max (set ids) + 1..Max (set ids) + int (length X)])"
    by simp
  from x show "Min (set [Max (set ids) + 1..Max (set ids) + int (length X)]) = Max (set ids) + 1"
    by (intro Min_upto) (cases X, simp_all)
qed

lemma fitted_partial_fit_succeeds:
  assumes "fitted env s" and "X \<noteq> []"
  shows "fst (TfidfRetrieval_partial_fit env s X None) = None"
proof -
  from assms(1) obtain cv M tv W ids n where
    a: "self_cv s = Some cv" "self_inv_X s = Some M" "self_vectorizer s = Some tv"
       "self_X s = Some W" "self_y s = Some ids" "self_n_docs s = Some n"
       "n_cols M = cv_n_features env cv" "n_cols W = tfidf_n_features env tv" "ids \<noteq> []"
    by (auto simp: fitted_def split: option.splits)
  from a(9) obtain x xs where ids: "ids = x # xs" by (cases ids) auto
  have "RetrievalBase_partial_fit env s X None =
      (None, s\<lparr>self_inv_X :=
                 Some \<lparr>rows = rows M @ rows (cv_transform env cv X), n_cols = n_cols M\<rparr>,
               self_y := Some (ids @ arange_int64 (int64 (fold max xs x + 1)) (length X)),
               self_n_docs := Some (n + length X)\<rparr>)"
    using a
    by (simp add: RetrievalBase_partial_fit_def checkXy_def vstack_def cv_transform_def ids Let_def)
  then show ?thesis
    using a assms(2)
    by (simp add: TfidfRetrieval_partial_fit_def vstack_def tfidf_transform_def tfidf_rows_def)
qed

lemma fit_fitted:
  assumes "TfidfRetrieval_fit env s X y = (None, s')"
  shows "fitted env s'"
proof -
  from TfidfRetrieval_fit_success [OF assms(1)] obtain cv tv where
    c: "checkXy X y = None" and x: "X \<noteq> []" and
    s': "s' = s\<lparr>self_cv := Some cv, self_inv_X := Some (cv_transform env cv X),
                 self_y := Some (case y of None \<Rightarrow> arange 0 (0 + int (length X)) | Some ys \<Rightarrow> ys),
                 self_n_docs := Some (length X),
                 self_vectorizer := Some tv, self_X := Some (tfidf_rows env tv X)\<rparr>"
    by blast
  from length_new_ids(1) [OF c, of 0] x
  have "(case y of None \<Rightarrow> arange 0 (0 + int (length X)) | Some ys \<Rightarrow> ys) \<noteq> []"
    by auto
  then show ?thesis
    by (simp add: s' fitted_def cv_transform_def tfidf_rows_def)
qed

text \<open>
  Claim C6, as the code has it. When \<open>partial_fit\<close> is called without identifiers on a
  store whose identifiers have maximum \<open>m\<close> and returns, the identifiers of the store
  are the old ones followed by \<open>m + 1, m + 2, ..., m + n\<close> computed in 64 bits, where \<open>n\<close>
  is the size of the batch. When the identifiers are 64-bit values and \<open>m + n\<close> is at
  most \<open>2 ^ 63 - 1\<close>, these are the consecutive integers from \<open>m + 1\<close> to \<open>m + n\<close>, and the
  least new identifier is \<open>m + 1\<close>.
\<close>

theorem C6_consecutive_ids:
  "self_y s = Some ids \<and> TfidfRetrieval_partial_fit env s X None = (None, s') \<longrightarrow>
     ids \<noteq> [] \<and> X \<noteq> []
     \<and> self_y s' = Some (ids @ map (\<lambda>i. int64 (Max (set ids) + 1 + int i)) [0..<length X])
     \<and> (- (2 ^ 63) \<le> Max (set ids) \<and> Max (set ids) + int (length X) < 2 ^ 63 \<longrightarrow>
          self_y s' = Some (ids @ [Max (set ids) + 1..Max (set ids) + int (length X)])
          \<and> Min (set [Max (set ids) + 1..Max (set ids) + int (length X)]) = Max (set ids) + 1)"
  using partial_fit_auto_ids [of s ids env X s'] partial_fit_auto_ids_exact [of s ids env X s']
  by blast

theorem C6_consecutive_ids_witness:
  "self_y example_store = Some [0, 1, 2]
   \<and> TfidfRetrieval_partial_fit char_sklearn example_store [''da'', ''e''] None
       = (None, extended_store)
   \<and> - (2 ^ 63) \<le> Max (set [0, 1, 2 :: int])
   \<and> Max (set [0, 1, 2]) + int (length [''da'', ''e'']) < 2 ^ 63
   \<and> self_y extended_store = Some [0, 1, 2, 3, 4]"
proof -
  have y: "self_y example_store = Some [0, 1, 2]"
    by (simp add: example_store_eq)
  have b: "- (2 ^ 63) \<le> Max (set [0, 1, 2 :: int])
      \<and> Max (set [0, 1, 2]) + int (length [''da'', ''e'']) < 2 ^ 63"
    by simp
  from C6_consecutive_ids [of example_store "[0, 1, 2]" char_sklearn "[''da'', ''e'']"
      extended_store] y partial_fit_example b
  have "self_y extended_store
      = Some ([0, 1, 2] @ [Max (set [0, 1, 2]) + 1..Max (set [0, 1, 2]) + int (length [''da'', ''e''])])"
    by blast
  then have "self_y extended_store = Some [0, 1, 2, 3, 4]"
    by (simp add: upto.simps)
  with y b partial_fit_example show ?thesis by blast
qed

text \<open>
  Beyond the largest 64-bit value the claim fails: on a store whose one identifier is
  \<open>2 ^ 63 - 1\<close>, \<open>next_id\<close> wraps around to \<open>- 2 ^ 63\<close>, and a batch of two documents gets
  the identifiers \<open>- 2 ^ 63\<close> and \<open>- 2 ^ 63 + 1\<close>, not \<open>2 ^ 63\<close> and \<open>2 ^ 63 + 1\<close>.
\<close>

theorem C6_wrap_around_counterexample:
  "self_y max_id_store = Some [9223372036854775807]
   \<and> fst (TfidfRetrieval_partial_fit char_sklearn max_id_store [''da'', ''e''] None) = None
   \<and> self_y (snd (TfidfRetrieval_partial_fit char_sklearn max_id_store [''da'', ''e''] None))
       = Some [9223372036854775807, - 9223372036854775808, - 9223372036854775807]"
  by (simp add: max_id_store_eq model_eval)

subsection \<open>\<open>partial_fit\<close> appends\<close>

lemma base_partial_fit_appends:
  assumes "RetrievalBase_partial_fit env s X y = (r, s')"
  shows "(\<forall>M. self_inv_X s = Some M \<longrightarrow>
            (\<exists>M' new. self_inv_X s' = Some M' \<and> rows M' = rows M @ new \<and> n_cols M' = n_cols M
               \<and> (r = None \<longrightarrow> length new = length X)))
       \<and> (\<forall>ids. self_y s = Some ids \<longrightarrow>
            (\<exists>new. self_y s' = Some (ids @ new) \<and> (r = None \<longrightarrow> length new = length X)))
       \<and> self_X s' = self_X s \<and> self_vectorizer s' = self_vectorizer s
       \<and> (r = None \<longrightarrow> (\<exists>n. self_n_docs s = Some n \<and> self_n_docs s' = Some (n + length X)))"
proof (cases r)
  case None
  with assms have ok: "RetrievalBase_partial_fit env s X y = (None, s')" by simp
  from RetrievalBase_partial_fit_success [OF ok] obtain M cv ids m n where
    c: "checkXy X y = None" and
    old: "self_inv_X s = Some M" "self_y s = Some ids" "self_n_docs s = Some n" and
    s': "s' = s\<lparr>self_inv_X :=
                   Some \<lparr>rows = rows M @ rows (cv_transform env cv X), n_cols = n_cols M\<rparr>,
                 self_y := Some (ids @ (case y of
                     None \<Rightarrow> arange_int64 (int64 (m + 1)) (length X) | Some ys \<Rightarrow> ys)),
                 self_n_docs := Some (n + length X)\<rparr>"
    by blast
  show ?thesis
    using old None by (simp add: s' length_rows_transform length_new_ids [OF c])
next
  case (Some e)
  with assms show ?thesis
    by (auto simp: RetrievalBase_partial_fit_def Let_def vstack_def
        split: option.splits sum.splits if_splits)
qed

lemma partial_fit_appends:
  assumes "TfidfRetrieval_partial_fit env s X y = (r, s')"
  shows "(\<forall>M. self_inv_X s = Some M \<longrightarrow>
            (\<exists>M' new. self_inv_X s' = Some M' \<and> rows M' = rows M @ new \<and> n_cols M' = n_cols M
               \<and> (r = None \<longrightarrow> length new = length X)))
       \<and> (\<forall>W. self_X s = Some W \<longrightarrow>
            (\<exists>W' new. self_X s' = Some W' \<and> rows W' = rows W @ new \<and> n_cols W' = n_cols W
               \<and> (r = None \<longrightarrow> length new = length X)))
       \<and> (\<forall>ids. self_y s = Some ids \<longrightarrow>
            (\<exists>new. self_y s' = Some (ids @ new) \<and> (r = None \<longrightarrow> length new = length X)))
       \<and> (r = None \<longrightarrow> (\<exists>n. self_n_docs s = Some n \<and> self_n_docs s' = Some (n + length X)))"
proof -
  obtain rb sb where b: "RetrievalBase_partial_fit env s X y = (rb, sb)"
    by (cases "RetrievalBase_partial_fit env s X y")
  note base = base_partial_fit_appends [OF b]
  show ?thesis
  proof (cases rb)
    case (Some e)
    with assms b have "r = Some e" "s' = sb"
      by (auto simp: TfidfRetrieval_partial_fit_def)
    with base Some show ?thesis by auto
  next
    case None
    show ?thesis
    proof (cases r)
      case (Some e)
      with assms b None have "s' = sb"
        by (auto simp: TfidfRetrieval_partial_fit_def Let_def split: option.splits sum.splits)
      with base Some show ?thesis by auto
    next
      case rNone: None
      with assms b None obtain tv W where
        "self_vectorizer sb = Some tv" "self_X sb = Some W"
        "s' = sb\<lparr>self_X :=
                   Some \<lparr>rows = rows W @ rows (tfidf_rows env tv X), n_cols = n_cols W\<rparr>\<rparr>"
        by (auto simp: TfidfRetrieval_partial_fit_def Let_def vstack_def tfidf_transform_Inr
            tfidf_rows_def split: option.splits sum.splits if_splits)
      with base None rNone show ?thesis by (auto simp: length_rows_transform)
    qed
  qed
qed

text \<open>
  Claim C9. \<open>partial_fit\<close> only appends. Whatever the outcome of the call, the boolean
  matrix, the weighted matrix and the identifiers of the store afterwards are those of
  before followed by new rows, so every old row and identifier stays where it was. When
  the call returns, each of the three has grown by the size of the batch, and so has the
  document count.
\<close>

theorem C9_partial_fit_appends:
  "TfidfRetrieval_partial_fit env s X y = (r, s') \<longrightarrow>
     (\<forall>M. self_inv_X s = Some M \<longrightarrow>
        (\<exists>M' new. self_inv_X s' = Some M' \<and> rows M' = rows M @ new \<and> n_cols M' = n_cols M
           \<and> (r = None \<longrightarrow> length new = length X)))
     \<and> (\<forall>W. self_X s = Some W \<longrightarrow>
        (\<exists>W' new. self_X s' = Some W' \<and> rows W' = rows W @ new \<and> n_cols W' = n_cols W
           \<and> (r = None \<longrightarrow> length new = length X)))
     \<and> (\<forall>ids. self_y s = Some ids \<longrightarrow>
        (\<exists>new. self_y s' = Some (ids @ new) \<and> (r = None \<longrightarrow> length new = length X)))
     \<and> (r = None \<longrightarrow> (\<exists>n. self_n_docs s = Some n \<and> self_n_docs s' = Some (n + length X)))"
  using partial_fit_appends [of env s X y r s'] by blast

theorem C9_partial_fit_appends_witness:
  "TfidfRetrieval_partial_fit char_sklearn example_store [''da'', ''e''] None
     = (None, extended_store)
   \<and> self_y example_store = Some [0, 1, 2]
   \<and> (\<exists>new. self_y extended_store = Some ([0, 1, 2] @ new) \<and> length new = 2)
   \<and> (\<exists>n. self_n_docs example_store = Some n \<and> self_n_docs extended_store = Some (n + 2))"
proof -
  have y: "self_y example_store = Some [0, 1, 2]"
    by (simp add: example_store_eq)
  note c9 = C9_partial_fit_appends [of char_sklearn example_store "[''da'', ''e'']" None None
      extended_store]
  from c9 partial_fit_example y
  have "\<exists>new. self_y extended_store = Some ([0, 1, 2] @ new)
          \<and> (None = (None :: error option) \<longrightarrow> length new = length [''da'', ''e''])"
    by blast
  then have ids: "\<exists>new. self_y extended_store = Some ([0, 1, 2] @ new) \<and> length new = 2"
    by (simp add: numeral_2_eq_2)
  from c9 partial_fit_example
  have "\<exists>n. self_n_docs example_store = Some n
          \<and> self_n_docs extended_store = Some (n + length [''da'', ''e''])"
    by blast
  then have "\<exists>n. self_n_docs example_store = Some n \<and> self_n_docs extended_store = Some (n + 2)"
    by simp
  with partial_fit_example y ids show ?thesis by blast
qed

section \<open>Querying\<close>

lemma take_items_Inr:
  "take_items xs idx = Inr ys \<Longrightarrow> (\<forall>i\<in>set idx. i < length xs) \<and> ys = map (\<lambda>i. xs ! i) idx"
  by (auto simp: take_items_def list_all_iff split: if_splits)

lemma query_within_matches:
  assumes "TfidfRetrieval_query env s text k = Inr labels"
  shows "\<exists>ind ids. RetrievalBase_matching env s text True = Inr (Indices ind)
           \<and> self_y s = Some ids \<and> (\<forall>i\<in>set ind. i < length ids)
           \<and> set labels \<subseteq> (\<lambda>i. ids ! i) ` set ind"
proof -
  from assms obtain ind ids matched where
    m: "RetrievalBase_matching env s text True = Inr (Indices ind)" and
    y: "self_y s = Some ids" and
    t: "take_items ids ind = Inr matched" and
    r: "labels = [] \<or> (\<exists>ind'. take_items matched ind' = Inr labels)"
    by (auto simp: TfidfRetrieval_query_def Let_def
        split: sum.splits matched.splits option.splits if_splits)
  from take_items_Inr [OF t] have b: "\<forall>i\<in>set ind. i < length ids" and
    matched: "matched = map (\<lambda>i. ids ! i) ind" by auto
  from r have "set labels \<subseteq> set matched"
  proof
    assume "labels = []"
    then show ?thesis by simp
  next
    assume "\<exists>ind'. take_items matched ind' = Inr labels"
    then obtain ind' where "take_items matched ind' = Inr labels" ..
    from take_items_Inr [OF this] show ?thesis by auto
  qed
  with m y b matched show ?thesis by auto
qed

text \<open>
  Claim C3. Every identifier in the sequence returned by \<open>query\<close> is the identifier of a
  row that the matching step returned for the same text: ranking reorders and cuts the
  matched candidates and adds no other document.
\<close>

theorem C3_results_are_matches:
  "TfidfRetrieval_query env s text k = Inr labels \<longrightarrow>
     (\<exists>ind ids. RetrievalBase_matching env s text True = Inr (Indices ind)
        \<and> self_y s = Some ids \<and> (\<forall>i\<in>set ind. i < length ids)
        \<and> set labels \<subseteq> (\<lambda>i. ids ! i) ` set ind)"
  using query_within_matches [of env s "text" k labels] by blast

theorem C3_results_are_matches_witness:
  "TfidfRetrieval_query char_sklearn example_store ''bc'' 1 = Inr [1]
   \<and> (\<exists>ind ids. RetrievalBase_matching char_sklearn example_store ''bc'' True = Inr (Indices ind)
        \<and> self_y example_store = Some ids \<and> (\<forall>i\<in>set ind. i < length ids)
        \<and> set [1] \<subseteq> (\<lambda>i. ids ! i) ` set ind)"
  using C3_results_are_matches [of char_sklearn example_store "''bc''" 1 "[1]"] query_example
  by blast







section \<open>Matching without the source documents\<close>

lemma rectangular_cv_transform: "rectangular (cv_transform env cv X)"
  by (simp add: rectangular_def cv_transform_def list_all_iff)

lemma index_ok_init: "index_ok env TfidfRetrieval_init"
  by (simp add: index_ok_def TfidfRetrieval_init_def)

lemma index_ok_base_fit:
  "index_ok env s \<Longrightarrow> index_ok env (snd (RetrievalBase_fit env s X y))"
  using rectangular_cv_transform [of env _ X]
  by (auto simp: RetrievalBase_fit_def index_ok_def Let_def cv_transform_def
      split: option.splits)

lemma index_ok_fit:
  "index_ok env s \<Longrightarrow> index_ok env (snd (TfidfRetrieval_fit env s X y))"
  using index_ok_base_fit [of env s X y]
  by (auto simp: TfidfRetrieval_fit_def index_ok_def Let_def
      split: option.splits prod.splits sum.splits)

lemma index_ok_base_partial_fit:
  "index_ok env s \<Longrightarrow> index_ok env (snd (RetrievalBase_partial_fit env s X y))"
  using rectangular_cv_transform [of env _ X]
  by (auto simp: RetrievalBase_partial_fit_def index_ok_def Let_def vstack_def rectangular_def
      cv_transform_def split: option.splits sum.splits)

lemma index_ok_partial_fit:
  "index_ok env s \<Longrightarrow> index_ok env (snd (TfidfRetrieval_partial_fit env s X y))"
  using index_ok_base_partial_fit [of env s X y]
  by (auto simp: TfidfRetrieval_partial_fit_def index_ok_def Let_def
      split: option.splits prod.splits sum.splits)

lemma index_ok_run: "index_ok env s \<Longrightarrow> index_ok env (run env s calls)"
proof (induction calls arbitrary: s)
  case Nil
  then show ?case by simp
next
  case (Cons c cs)
  have "index_ok env (snd (perform env s c))"
    using Cons.prems by (cases c) (simp_all add: index_ok_fit index_ok_partial_fit)
  then show ?case by (simp add: Cons.IH)
qed

lemma matching_needs_fit_X:
  assumes "self_fit_X s = None"
  shows "\<exists>e. RetrievalBase_matching env s query False = Inl e"
  using assms
  by (auto simp: RetrievalBase_matching_def Let_def split: option.splits sum.splits)

lemma matching_on_index:
  assumes "index_ok env s" and "self_inv_X s \<noteq> None"
  shows "RetrievalBase_matching env s query False = Inl (AttributeError ''_fit_X'')"
    and "\<exists>ind. RetrievalBase_matching env s query True = Inr (Indices ind)"
proof -
  from assms obtain M cv where
    a: "self_inv_X s = Some M" "self_cv s = Some cv" "n_cols M = cv_n_features env cv"
       "rectangular M" "self_fit_X s = None" "self_match_fn s = Some TermMatch"
    by (auto simp: index_ok_def split: option.splits)
  have "\<exists>inds. TermMatch M (cv_transform env cv [query]) = Inr inds \<and> sorted_wrt (<) inds \<and>
           set inds = {i. i < n_rows M \<and>
             (\<exists>j<n_cols M. rows M ! i ! j \<and> hd (rows (cv_transform env cv [query])) ! j)}"
    using a(3,4)
    by (intro TermMatch_correct rectangular_cv_transform) (simp_all add: cv_transform_def n_rows_def)
  then obtain inds where t: "TermMatch M (cv_transform env cv [query]) = Inr inds" by blast
  show "RetrievalBase_matching env s query False = Inl (AttributeError ''_fit_X'')"
    using a t by (simp add: RetrievalBase_matching_def)
  show "\<exists>ind. RetrievalBase_matching env s query True = Inr (Indices ind)"
    using a t by (simp add: RetrievalBase_matching_def)
qed

text \<open>
  Claim C10. \<open>_matching\<close> with \<open>return_indices\<close> false fails whenever the attribute
  \<open>_fit_X\<close> is not assigned, and no history of \<open>fit\<close> and \<open>partial_fit\<close> calls on a new
  object assigns it. On every store such a history leaves with an index, the call with
  \<open>return_indices\<close> false raises the attribute error for \<open>_fit_X\<close>, and the call with
  \<open>return_indices\<close> true returns row indices.
\<close>

theorem C10_matching_without_indices_fails:
  "(self_fit_X s = None \<longrightarrow> (\<exists>e. RetrievalBase_matching env s query False = Inl e))
   \<and> self_fit_X (run env TfidfRetrieval_init calls) = None
   \<and> (self_inv_X (run env TfidfRetrieval_init calls) \<noteq> None \<longrightarrow>
        RetrievalBase_matching env (run env TfidfRetrieval_init calls) query False
          = Inl (AttributeError ''_fit_X'')
        \<and> (\<exists>ind. RetrievalBase_matching env (run env TfidfRetrieval_init calls) query True
              = Inr (Indices ind)))"
proof -
  have ok: "index_ok env (run env TfidfRetrieval_init calls)"
    by (rule index_ok_run) (rule index_ok_init)
  then have "self_fit_X (run env TfidfRetrieval_init calls) = None"
    by (simp add: index_ok_def)
  with matching_needs_fit_X [of s env query] matching_on_index [OF ok, of query]
  show ?thesis by blast
qed

theorem C10_matching_without_indices_fails_witness:
  "self_fit_X example_store = None
   \<and> run char_sklearn TfidfRetrieval_init [Fit [''ab'', ''bc'', ''cd''] None] = example_store
   \<and> self_inv_X example_store \<noteq> None
   \<and> RetrievalBase_matching char_sklearn example_store ''bc'' False
       = Inl (AttributeError ''_fit_X'')
   \<and> (\<exists>ind. RetrievalBase_matching char_sklearn example_store ''bc'' True = Inr (Indices ind))"
proof -
  have r: "run char_sklearn TfidfRetrieval_init [Fit [''ab'', ''bc'', ''cd''] None] = example_store"
    by (simp add: example_store_def)
  have i: "self_inv_X example_store \<noteq> None" and f: "self_fit_X example_store = None"
    by (simp_all add: example_store_eq)
  from C10_matching_without_indices_fails [of example_store char_sklearn "''bc''"
      "[Fit [''ab'', ''bc'', ''cd''] None]"] i
  have "RetrievalBase_matching char_sklearn example_store ''bc'' False
          = Inl (AttributeError ''_fit_X'')
        \<and> (\<exists>ind. RetrievalBase_matching char_sklearn example_store ''bc'' True = Inr (Indices ind))"
    unfolding r by blast
  with r i f show ?thesis by blast
qed

section \<open>Evaluation against judgments\<close>

lemma evaluate_keys:
  assumes "evaluate query rm X Y k metrics = Inr values"
  shows "dom values = set metrics \<inter> set VALID_METRICS"
  using assms
  by (auto simp: evaluate_def VALID_METRICS_def Let_def split: sum.splits if_splits)

text \<open>
  Claim C8. The keys of the mapping that \<open>evaluate\<close> returns are the requested names
  that are valid metric names; so for every requested set of valid metric names the keys
  are exactly the requested names.
\<close>

theorem C8_exactly_requested_keys:
  "evaluate query rm X Y k metrics = Inr values \<longrightarrow>
     dom values = set metrics \<inter> set VALID_METRICS
     \<and> (set metrics \<subseteq> set VALID_METRICS \<longrightarrow> dom values = set metrics)"
  using evaluate_keys [of query rm X Y k metrics "values"] by blast

theorem C8_exactly_requested_keys_witness:
  "evaluate (TfidfRetrieval_query char_sklearn example_store) (constant_metrics (0::nat))
      [(0, ''bc'')] (PairKeyed [(0, 1) \<mapsto> 1]) 1 [''mean_reciprocal_rank'']
     = Inr [''mean_reciprocal_rank'' \<mapsto> 0]
   \<and> set [''mean_reciprocal_rank''] \<subseteq> set VALID_METRICS
   \<and> dom [''mean_reciprocal_rank'' \<mapsto> (0::nat)] = set [''mean_reciprocal_rank'']"
proof -
  have e: "evaluate (TfidfRetrieval_query char_sklearn example_store) (constant_metrics (0::nat))
      [(0, ''bc'')] (PairKeyed [(0, 1) \<mapsto> 1]) 1 [''mean_reciprocal_rank'']
     = Inr [''mean_reciprocal_rank'' \<mapsto> 0]"
    by (simp add: evaluate_def query_example relevance_def constant_metrics_def)
  have v: "set [''mean_reciprocal_rank''] \<subseteq> set VALID_METRICS"
    by (simp add: VALID_METRICS_def)
  from C8_exactly_requested_keys [of "TfidfRetrieval_query char_sklearn example_store"
      "constant_metrics (0::nat)" "[(0, ''bc'')]" "PairKeyed [(0, 1) \<mapsto> 1]" 1
      "[''mean_reciprocal_rank'']" "[''mean_reciprocal_rank'' \<mapsto> 0]"] e v
  show ?thesis by blast
qed

text \<open>
  Claim C4. A lookup keyed by pairs of a query id and a document id gives 0 for a pair
  it does not hold. A list of dicts, the nested shape of the docstring, has no \<open>get\<close>
  method and is indexed instead: a document id that the dict of the query does not hold
  raises \<open>KeyError\<close>, and \<open>evaluate\<close> fails with it.
\<close>

theorem C4_nested_missing_entry_raises:
  "relevance (PairKeyed [(0, 1) \<mapsto> 1]) 0 [1, 2] = Inr [1, 0]
   \<and> relevance (NestedList [[1 \<mapsto> 1]]) 0 [1, 2] = Inl KeyError
   \<and> TfidfRetrieval_query char_sklearn example_store ''c'' 3 = Inr [1, 2]
   \<and> evaluate (TfidfRetrieval_query char_sklearn example_store) (constant_metrics (0::nat))
        [(0, ''c'')] (NestedList [[1 \<mapsto> 1]]) 3 VALID_METRICS = Inl KeyError"
proof -
  have q: "TfidfRetrieval_query char_sklearn example_store ''c'' 3 = Inr [1, 2]"
    by (simp add: example_store_eq query_eval)
  have n: "relevance (NestedList [[1 \<mapsto> 1]]) 0 [1, 2] = Inl KeyError"
    by (simp add: relevance_def py_index_def)
  have p: "relevance (PairKeyed [(0, 1) \<mapsto> 1]) 0 [1, 2] = Inr [1, 0]"
    by (simp add: relevance_def)
  have "evaluate (TfidfRetrieval_query char_sklearn example_store) (constant_metrics (0::nat))
        [(0, ''c'')] (NestedList [[1 \<mapsto> 1]]) 3 VALID_METRICS = Inl KeyError"
    by (simp add: evaluate_def q n)
  with q n p show ?thesis by blast
qed

end
